theory Spec2Isabelle
  imports Complex_Main
begin

section \<open>Decoded JSON values\<close>

text \<open>
  The value \<open>json.loads\<close> returns: \<open>None\<close>, a bool, a number, a str, a list or a dict.
  A dict is kept as an association list read with \<open>map_of\<close>. The code observes of a
  number only its truth value, so one constructor stands for Python's int and float.
\<close>

datatype json =
    JNull
  | JBool bool
  | JNum real
  | JStr string
  | JArr "json list"
  | JObj "(string \<times> json) list"

type_synonym pydict = "(string \<times> json) list"

text \<open>Python's truth value of a decoded value (\<open>if socket_id:\<close>, \<open>if progress:\<close>).\<close>

fun truthy :: "json \<Rightarrow> bool" where
  "truthy JNull = False"
| "truthy (JBool b) = b"
| "truthy (JNum x) = (x \<noteq> 0)"
| "truthy (JStr s) = (s \<noteq> [])"
| "truthy (JArr xs) = (xs \<noteq> [])"
| "truthy (JObj kvs) = (kvs \<noteq> [])"

text \<open>\<open>d.get(k)\<close> and \<open>d.get(k, default)\<close> on a dict.\<close>

definition dict_get :: "pydict \<Rightarrow> string \<Rightarrow> json" where
  "dict_get d k = (case map_of d k of None \<Rightarrow> JNull | Some v \<Rightarrow> v)"

definition dict_get_default :: "pydict \<Rightarrow> string \<Rightarrow> json \<Rightarrow> json" where
  "dict_get_default d k dflt = (case map_of d k of None \<Rightarrow> dflt | Some v \<Rightarrow> v)"

section \<open>The environment\<close>

text \<open>
  An HTTP response as the code reads it: \<open>status_code\<close> and the body (\<open>text\<close>,
  \<open>content\<close>); \<open>resp.json()\<close> is \<open>json.loads\<close> of the body. A call of the session that
  raises (no connection, timeout) is \<open>None\<close>.
\<close>

record response =
  status_code :: nat
  body :: string

text \<open>
  What the code calls and does not define: \<open>json.loads\<close> (\<open>None\<close> when it raises), the
  HTTP session by endpoint, and \<open>Image.open(...).convert\<close> (\<open>None\<close> when it raises).
  \<open>status_get i\<close> is the \<open>i\<close>-th status request of a polling run: the time in
  milliseconds the cycle takes besides its sleep, and the response.
\<close>

record 'img env =
  loads :: "string \<Rightarrow> json option"
  auth_post :: "string \<Rightarrow> json \<Rightarrow> string \<Rightarrow> response option"
  status_get :: "nat \<Rightarrow> nat \<times> response option"
  image_get :: "string \<Rightarrow> response option"
  image_open :: "string \<Rightarrow> 'img option"

section \<open>The WebSocket listener (deapi_websocket.py)\<close>

text \<open>One constructor for each logging call of the listener.\<close>

datatype log_entry =
    LogProgress json
  | LogJobError pydict
  | LogParseError
  | LogWsError
  | LogAuthFailed nat string
  | LogSubscribed string

text \<open>
  The variables the callbacks of \<open>wait_for_result\<close> share: \<open>result_holder[0]\<close>, the
  event \<open>done\<close>, whether \<open>ws.close()\<close> has been called, the frames given to \<open>ws.send\<close>,
  and the log.
\<close>

record listener =
  result_holder :: "pydict option"
  done_flag :: bool
  ws_closed :: bool
  sent :: "json list"
  logged :: "log_entry list"

definition subscribe_frame :: "string \<Rightarrow> json \<Rightarrow> json" where
  "subscribe_frame channel auth =
     JObj [(''event'', JStr ''pusher:subscribe''),
           (''data'', JObj [(''channel'', JStr channel), (''auth'', auth)])]"

text \<open>
  \<open>_subscribe_private_channel\<close>. \<open>None\<close> is an exception leaving the function: the post
  raises, \<open>resp.json()\<close> raises, the decoded body has no \<open>get\<close>, or \<open>ws.send\<close> finds the
  connection closed. A response other than 200 is logged and the function returns.
\<close>

definition subscribe_private_channel ::
  "'img env \<Rightarrow> string \<Rightarrow> string \<Rightarrow> json \<Rightarrow> listener \<Rightarrow> listener option" where
  "subscribe_private_channel e api_token client_id socket_id s =
     (let channel = ''private-client.'' @ client_id in
      case auth_post e api_token socket_id channel of
        None \<Rightarrow> None
      | Some resp \<Rightarrow>
          if status_code resp \<noteq> 200
          then Some (s\<lparr>logged := logged s @ [LogAuthFailed (status_code resp) (body resp)]\<rparr>)
          else (case loads e (body resp) of
                  Some (JObj auth_data) \<Rightarrow>
                    if ws_closed s then None
                    else Some (s\<lparr>sent := sent s @
                                   [subscribe_frame channel
                                      (dict_get_default auth_data ''auth'' (JStr ''''))],
                                 logged := logged s @ [LogSubscribed channel]\<rparr>)
                | _ \<Rightarrow> None))"

text \<open>
  \<open>json.loads(data.get("data", "{}"))\<close>: the default decodes to the empty dict; a value
  that is not a str makes \<open>json.loads\<close> raise.
\<close>

definition load_data :: "'img env \<Rightarrow> pydict \<Rightarrow> json option" where
  "load_data e d =
     (case map_of d ''data'' of
        None \<Rightarrow> Some (JObj [])
      | Some (JStr s) \<Rightarrow> loads e s
      | Some _ \<Rightarrow> None)"

text \<open>
  The \<open>try\<close> block of \<open>on_message\<close>; \<open>None\<close> is an exception raised inside it.
  \<open>request_id\<close> is the value the submission returned; the signature declares a str,
  and for a str Python's \<open>==\<close> against a decoded value is the equality of \<open>json\<close>.
\<close>

definition on_message_try ::
  "'img env \<Rightarrow> json \<Rightarrow> string \<Rightarrow> string \<Rightarrow> listener \<Rightarrow> string \<Rightarrow> listener option" where
  "on_message_try e request_id api_token client_id s message =
     (case loads e message of
        Some (JObj data) \<Rightarrow>
          (let event = dict_get data ''event'' in
           if event = JStr ''pusher:connection_established'' then
             (case load_data e data of
                Some (JObj conn_data) \<Rightarrow>
                  (let socket_id = dict_get conn_data ''socket_id'' in
                   if truthy socket_id
                   then subscribe_private_channel e api_token client_id socket_id s
                   else Some s)
              | _ \<Rightarrow> None)
           else if event = JStr ''request.status.updated'' then
             (case load_data e data of
                Some (JObj payload) \<Rightarrow>
                  if dict_get payload ''request_id'' = request_id then
                    (let status = dict_get payload ''status'';
                         progress = dict_get_default payload ''progress'' (JStr '''');
                         s1 = (if truthy progress
                               then s\<lparr>logged := logged s @ [LogProgress progress]\<rparr>
                               else s)
                     in if status = JStr ''done'' then
                          Some (s1\<lparr>result_holder := Some payload, done_flag := True,
                                    ws_closed := True\<rparr>)
                        else if status = JStr ''error'' then
                          Some (s1\<lparr>logged := logged s1 @ [LogJobError payload],
                                    done_flag := True, ws_closed := True\<rparr>)
                        else Some s1)
                  else Some s
              | _ \<Rightarrow> None)
           else Some s)
      | _ \<Rightarrow> None)"

text \<open>\<open>on_message\<close>: the \<open>except Exception\<close> clause logs and returns.\<close>

definition on_message ::
  "'img env \<Rightarrow> json \<Rightarrow> string \<Rightarrow> string \<Rightarrow> listener \<Rightarrow> string \<Rightarrow> listener" where
  "on_message e request_id api_token client_id s message =
     (case on_message_try e request_id api_token client_id s message of
        None \<Rightarrow> s\<lparr>logged := logged s @ [LogParseError]\<rparr>
      | Some s' \<Rightarrow> s')"

definition on_error :: "listener \<Rightarrow> listener" where
  "on_error s = s\<lparr>logged := logged s @ [LogWsError], done_flag := True\<rparr>"

definition on_close :: "listener \<Rightarrow> listener" where
  "on_close s = s\<lparr>done_flag := True\<rparr>"

text \<open>
  What the connection delivers to the callbacks before the caller's timeout: a message,
  an error (also a connection that cannot be opened) or the close of the connection.
\<close>

datatype ws_event = WsMessage string | WsError | WsClose

definition dispatch ::
  "'img env \<Rightarrow> json \<Rightarrow> string \<Rightarrow> string \<Rightarrow> listener \<Rightarrow> ws_event \<Rightarrow> listener" where
  "dispatch e request_id api_token client_id s ev =
     (case ev of
        WsMessage m \<Rightarrow> on_message e request_id api_token client_id s m
      | WsError \<Rightarrow> on_error s
      | WsClose \<Rightarrow> on_close s)"

text \<open>
  The callbacks run one event after the other until \<open>done\<close> is set: the caller, blocked in
  \<open>done.wait\<close>, returns at that moment.
\<close>

fun run_ws ::
  "'img env \<Rightarrow> json \<Rightarrow> string \<Rightarrow> string \<Rightarrow> listener \<Rightarrow> ws_event list \<Rightarrow> listener" where
  "run_ws e request_id api_token client_id s [] = s"
| "run_ws e request_id api_token client_id s (ev # evs) =
     (if done_flag s then s
      else run_ws e request_id api_token client_id
             (dispatch e request_id api_token client_id s ev) evs)"

definition listener_init :: listener where
  "listener_init =
     \<lparr>result_holder = None, done_flag = False, ws_closed = False, sent = [], logged = []\<rparr>"

text \<open>
  What \<open>wait_for_result\<close> returns (\<open>returned\<close>), whether \<open>done.wait\<close> ran into the
  timeout, and the listener's variables when it returns.
\<close>

record ws_outcome =
  returned :: "pydict option"
  timed_out :: bool
  final :: listener

text \<open>
  \<open>wait_for_result\<close>, with the events that arrive within the timeout. When \<open>done\<close> is set
  it returns \<open>result_holder[0]\<close>; otherwise it closes the connection and returns \<open>None\<close>.
\<close>

definition wait_for_result ::
  "'img env \<Rightarrow> json \<Rightarrow> string \<Rightarrow> string \<Rightarrow> ws_event list \<Rightarrow> ws_outcome" where
  "wait_for_result e request_id api_token client_id evs =
     (let s = run_ws e request_id api_token client_id listener_init evs in
      if done_flag s
      then \<lparr>returned = result_holder s, timed_out = False, final = s\<rparr>
      else \<lparr>returned = None, timed_out = True, final = s\<lparr>ws_closed := True\<rparr>\<rparr>)"

section \<open>Polling (deapi_provider.py, \<open>_poll_for_result\<close>)\<close>

definition MAX_WAIT_TIME :: nat where
  "MAX_WAIT_TIME = 300"

definition POLL_INTERVAL :: nat where
  "POLL_INTERVAL = 2"

text \<open>The clock counts milliseconds; the two constants are seconds.\<close>

definition ms :: "nat \<Rightarrow> nat" where
  "ms seconds = 1000 * seconds"

text \<open>
  How \<open>_poll_for_result\<close> ends, one constructor for each \<open>return\<close>, named after the
  message logged before it; \<open>PollRaised\<close> is an exception leaving the function (a request
  that raises, a body that is not JSON or has no \<open>get\<close>, an image that cannot be opened).
\<close>

datatype 'img poll_exit =
    PollImage 'img
  | PollStatusError nat
  | PollNoResultUrl
  | PollFetchFailed nat
  | PollJobFailed pydict
  | PollTimedOut
  | PollRaised

text \<open>\<open>session.get(url)\<close> with a decoded value as the URL: only a str can be fetched.\<close>

definition session_get_url :: "'img env \<Rightarrow> json \<Rightarrow> response option" where
  "session_get_url e url = (case url of JStr u \<Rightarrow> image_get e u | _ \<Rightarrow> None)"

text \<open>The \<open>done\<close> branch of the loop: the result URL is checked and fetched.\<close>

definition poll_fetch :: "'img env \<Rightarrow> pydict \<Rightarrow> 'img poll_exit" where
  "poll_fetch e data =
     (let result_url = dict_get data ''result_url'' in
      if \<not> truthy result_url then PollNoResultUrl
      else (case session_get_url e result_url of
              None \<Rightarrow> PollRaised
            | Some img_resp \<Rightarrow>
                if status_code img_resp \<noteq> 200 then PollFetchFailed (status_code img_resp)
                else (case image_open e (body img_resp) of
                        None \<Rightarrow> PollRaised
                      | Some img \<Rightarrow> PollImage img)))"

text \<open>
  The body of the loop up to its sleep, on the response of the status request:
  \<open>Some x\<close> leaves the function, \<open>None\<close> goes on to \<open>time.sleep\<close>.
\<close>

definition poll_cycle :: "'img env \<Rightarrow> response option \<Rightarrow> 'img poll_exit option" where
  "poll_cycle e r =
     (case r of
        None \<Rightarrow> Some PollRaised
      | Some resp \<Rightarrow>
          if status_code resp \<noteq> 200 then Some (PollStatusError (status_code resp))
          else (case loads e (body resp) of
                  Some (JObj result) \<Rightarrow>
                    (case dict_get_default result ''data'' (JObj []) of
                       JObj data \<Rightarrow>
                         (let status = dict_get data ''status'' in
                          if status = JStr ''done'' then Some (poll_fetch e data)
                          else if status = JStr ''error'' then Some (PollJobFailed data)
                          else None)
                     | _ \<Rightarrow> Some PollRaised)
                | _ \<Rightarrow> Some PollRaised))"

text \<open>
  How the polling ended, the status requests it made and the times it slept.
\<close>

record 'img poll_outcome =
  how :: "'img poll_exit"
  requests :: nat
  sleeps :: nat

text \<open>
  The \<open>while\<close> loop: \<open>t\<close> is \<open>time.monotonic() - start\<close> at the test of the condition, in
  milliseconds, and \<open>i\<close> the number of cycles completed, each ended by one sleep.
\<close>

function poll_loop :: "'img env \<Rightarrow> nat \<Rightarrow> nat \<Rightarrow> 'img poll_outcome" where
  "poll_loop e t i =
     (if t < ms MAX_WAIT_TIME then
        (case poll_cycle e (snd (status_get e i)) of
           Some x \<Rightarrow> \<lparr>how = x, requests = Suc i, sleeps = i\<rparr>
         | None \<Rightarrow> poll_loop e (t + fst (status_get e i) + ms POLL_INTERVAL) (Suc i))
      else \<lparr>how = PollTimedOut, requests = i, sleeps = i\<rparr>)"
  by pat_completeness auto
termination
  by (relation "measure (\<lambda>(e, t, i). ms MAX_WAIT_TIME - t)")
     (auto simp: ms_def POLL_INTERVAL_def MAX_WAIT_TIME_def)

definition poll_for_result :: "'img env \<Rightarrow> 'img poll_outcome" where
  "poll_for_result e = poll_loop e 0 0"

text \<open>What the caller of \<open>_poll_for_result\<close> gets: the image, or \<open>None\<close>.\<close>

definition poll_value :: "'img poll_outcome \<Rightarrow> 'img option" where
  "poll_value p = (case how p of PollImage img \<Rightarrow> Some img | _ \<Rightarrow> None)"

section \<open>The orchestrator (deapi_provider.py, \<open>to_illustration\<close>)\<close>

text \<open>
  What \<open>to_illustration\<close> returns (\<open>image\<close>), with the outcome of the WebSocket wait and
  of the polling when they were run.
\<close>

record 'img illustration =
  image :: "'img option"
  ws :: "ws_outcome option"
  poll :: "'img poll_outcome option"

text \<open>
  The use of the WebSocket result: \<open>Some (Some img)\<close> is the image fetched from its
  \<open>result_url\<close>, \<open>Some None\<close> leaves \<open>out_img\<close> at \<open>None\<close>, and \<open>None\<close> is an exception
  (the fetch raises, or the image cannot be opened).
\<close>

definition fetch_ws_result :: "'img env \<Rightarrow> ws_outcome \<Rightarrow> 'img option option" where
  "fetch_ws_result e w =
     (case returned w of
        None \<Rightarrow> Some None
      | Some ws_result \<Rightarrow>
          if ws_result \<noteq> [] \<and> truthy (dict_get ws_result ''result_url'') then
            (case session_get_url e (dict_get ws_result ''result_url'') of
               None \<Rightarrow> None
             | Some img_resp \<Rightarrow>
                 if status_code img_resp = 200
                 then (case image_open e (body img_resp) of
                         None \<Rightarrow> None
                       | Some img \<Rightarrow> Some (Some img))
                 else Some None)
          else Some None)"

text \<open>
  \<open>to_illustration\<close> from the moment the submission has returned \<open>request_id\<close>: the wait
  on the WebSocket when a client id is configured, then the polling when \<open>out_img\<close> is
  still \<open>None\<close>. An exception is caught by the function's \<open>except\<close>, which returns \<open>None\<close>.
\<close>

definition await_illustration ::
  "'img env \<Rightarrow> string \<Rightarrow> string \<Rightarrow> json \<Rightarrow> ws_event list \<Rightarrow> 'img illustration" where
  "await_illustration e api_key client_id request_id evs =
     (let w = (if client_id \<noteq> []
               then Some (wait_for_result e request_id api_key client_id evs)
               else None);
          out_img = (case w of None \<Rightarrow> Some None | Some w' \<Rightarrow> fetch_ws_result e w')
      in case out_img of
           None \<Rightarrow> \<lparr>image = None, ws = w, poll = None\<rparr>
         | Some (Some img) \<Rightarrow> \<lparr>image = Some img, ws = w, poll = None\<rparr>
         | Some None \<Rightarrow>
             (let p = poll_for_result e
              in \<lparr>image = poll_value p, ws = w, poll = Some p\<rparr>))"

text \<open>
  \<open>to_illustration\<close>: \<open>submit_post\<close> is the encoding of the image and the POST of the
  request (\<open>None\<close> when either raises).
\<close>

definition to_illustration ::
  "'img env \<Rightarrow> response option \<Rightarrow> string \<Rightarrow> string \<Rightarrow> ws_event list \<Rightarrow> 'img illustration" where
  "to_illustration e submit_post api_key client_id evs =
     (let nothing = \<lparr>image = None, ws = None, poll = None\<rparr> in
      if api_key = [] then nothing
      else (case submit_post of
              None \<Rightarrow> nothing
            | Some resp \<Rightarrow>
                if status_code resp \<noteq> 200 then nothing
                else (case loads e (body resp) of
                        Some (JObj result) \<Rightarrow>
                          (case dict_get_default result ''data'' (JObj []) of
                             JObj data \<Rightarrow>
                               (let request_id = dict_get data ''request_id'' in
                                if \<not> truthy request_id then nothing
                                else await_illustration e api_key client_id request_id evs)
                           | _ \<Rightarrow> nothing)
                      | _ \<Rightarrow> nothing)))"

section \<open>File names (image_album.py, \<open>_sanitize_filename\<close>)\<close>

text \<open>A Python str as the list of its code points.\<close>

type_synonym pystr = "nat list"

text \<open>The code points \<open>str.strip()\<close> removes at both ends.\<close>

definition is_space :: "nat \<Rightarrow> bool" where
  "is_space c \<longleftrightarrow>
     (9 \<le> c \<and> c \<le> 13) \<or> (28 \<le> c \<and> c \<le> 32) \<or> c = 133 \<or> c = 160 \<or> c = 5760 \<or>
     (8192 \<le> c \<and> c \<le> 8202) \<or> c = 8232 \<or> c = 8233 \<or> c = 8239 \<or> c = 8287 \<or> c = 12288"

definition strip :: "pystr \<Rightarrow> pystr" where
  "strip s = rev (dropWhile is_space (rev (dropWhile is_space s)))"

text \<open>
  The class of the regular expression: slash, backslash, colon, asterisk, question mark,
  double quote, less-than, greater-than, vertical bar.
\<close>

definition forbidden :: "nat list" where
  "forbidden = [47, 92, 58, 42, 63, 34, 60, 62, 124]"

definition unknown :: pystr where
  "unknown = map of_char ''unknown''"

definition sanitize_filename :: "pystr option \<Rightarrow> pystr" where
  "sanitize_filename name =
     (let s = strip (case name of None \<Rightarrow> unknown | Some n \<Rightarrow> if n = [] then unknown else n);
          s' = filter (\<lambda>c. c \<notin> set forbidden) s
      in if s' = [] then unknown else s')"

section \<open>Reading the events\<close>

text \<open>
  The payload of a message that is a status update: its event is
  \<open>request.status.updated\<close> and its \<open>data\<close> field decodes to a dict.
\<close>

definition status_update :: "'img env \<Rightarrow> string \<Rightarrow> pydict option" where
  "status_update e message =
     (case loads e message of
        Some (JObj data) \<Rightarrow>
          if dict_get data ''event'' = JStr ''request.status.updated''
          then (case load_data e data of Some (JObj payload) \<Rightarrow> Some payload | _ \<Rightarrow> None)
          else None
      | _ \<Rightarrow> None)"

text \<open>
  A message decoded to a dict whose event is not a status update, or a status update that
  carries another job identifier than \<open>request_id\<close>.
\<close>

definition unrelated :: "'img env \<Rightarrow> json \<Rightarrow> string \<Rightarrow> bool" where
  "unrelated e request_id message =
     (case loads e message of
        Some (JObj data) \<Rightarrow>
          if dict_get data ''event'' = JStr ''request.status.updated''
          then (case load_data e data of
                  Some (JObj payload) \<Rightarrow> dict_get payload ''request_id'' \<noteq> request_id
                | _ \<Rightarrow> False)
          else True
      | _ \<Rightarrow> False)"

text \<open>
  A terminal event for \<open>request_id\<close>: a status update with that identifier and the status
  \<open>done\<close> or \<open>error\<close>.
\<close>

definition terminal :: "'img env \<Rightarrow> json \<Rightarrow> string \<Rightarrow> bool" where
  "terminal e request_id message =
     (case status_update e message of
        Some payload \<Rightarrow>
          dict_get payload ''request_id'' = request_id \<and>
          (dict_get payload ''status'' = JStr ''done'' \<or>
           dict_get payload ''status'' = JStr ''error'')
      | None \<Rightarrow> False)"

text \<open>A dict without its \<open>progress\<close> entries.\<close>

definition without_progress :: "pydict \<Rightarrow> pydict" where
  "without_progress d = filter (\<lambda>kv. fst kv \<noteq> ''progress'') d"

text \<open>
  Two events that are the same, or two status updates, neither terminal for
  \<open>request_id\<close>, whose payloads differ at most in their \<open>progress\<close> entries.
\<close>

definition progress_variant :: "'img env \<Rightarrow> json \<Rightarrow> ws_event \<Rightarrow> ws_event \<Rightarrow> bool" where
  "progress_variant e request_id ev ev' =
     (ev = ev' \<or>
      (case (ev, ev') of
         (WsMessage m, WsMessage m') \<Rightarrow>
           (case (status_update e m, status_update e m') of
              (Some p, Some p') \<Rightarrow>
                without_progress p = without_progress p' \<and>
                \<not> terminal e request_id m \<and> \<not> terminal e request_id m'
            | _ \<Rightarrow> False)
       | _ \<Rightarrow> False))"

text \<open>
  The \<open>data\<close> dict of a status response as the polling loop reads it: the response is a
  200 whose body decodes to a dict with a dict (or nothing) under \<open>data\<close>.
\<close>

definition status_data :: "'img env \<Rightarrow> response option \<Rightarrow> pydict option" where
  "status_data e r =
     (case r of
        None \<Rightarrow> None
      | Some resp \<Rightarrow>
          if status_code resp \<noteq> 200 then None
          else (case loads e (body resp) of
                  Some (JObj result) \<Rightarrow>
                    (case dict_get_default result ''data'' (JObj []) of
                       JObj data \<Rightarrow> Some data
                     | _ \<Rightarrow> None)
                | _ \<Rightarrow> None))"

section \<open>An example environment\<close>

text \<open>
  A decoder given as a table from the text on the wire to its decoded value; every other
  text is not JSON. The job awaited is \<open>req-1\<close>.
\<close>

definition demo_table :: "(string \<times> json) list" where
  "demo_table =
     [(''MSG-established'',
         JObj [(''event'', JStr ''pusher:connection_established''),
               (''data'', JStr ''DATA-socket'')]),
      (''DATA-socket'', JObj [(''socket_id'', JStr ''1234.5678'')]),
      (''AUTH-ok'', JObj [(''auth'', JStr ''key:signature'')]),
      (''MSG-pong'', JObj [(''event'', JStr ''pusher:pong'')]),
      (''MSG-done'',
         JObj [(''event'', JStr ''request.status.updated''), (''data'', JStr ''DATA-done'')]),
      (''DATA-done'',
         JObj [(''request_id'', JStr ''req-1''), (''status'', JStr ''done''),
               (''result_url'', JStr ''https://cdn/one.png'')]),
      (''MSG-error'',
         JObj [(''event'', JStr ''request.status.updated''), (''data'', JStr ''DATA-error'')]),
      (''DATA-error'', JObj [(''request_id'', JStr ''req-1''), (''status'', JStr ''error'')]),
      (''MSG-other-done'',
         JObj [(''event'', JStr ''request.status.updated''),
               (''data'', JStr ''DATA-other-done'')]),
      (''DATA-other-done'',
         JObj [(''request_id'', JStr ''req-2''), (''status'', JStr ''done''),
               (''result_url'', JStr ''https://cdn/two.png'')]),
      (''MSG-progress-40'',
         JObj [(''event'', JStr ''request.status.updated''),
               (''data'', JStr ''DATA-progress-40'')]),
      (''DATA-progress-40'',
         JObj [(''request_id'', JStr ''req-1''), (''status'', JStr ''processing''),
               (''progress'', JNum 40)]),
      (''MSG-progress-70'',
         JObj [(''event'', JStr ''request.status.updated''),
               (''data'', JStr ''DATA-progress-70'')]),
      (''DATA-progress-70'',
         JObj [(''request_id'', JStr ''req-1''), (''status'', JStr ''processing''),
               (''progress'', JNum 70)]),
      (''MSG-bad-data'',
         JObj [(''event'', JStr ''request.status.updated''), (''data'', JStr ''{oops'')]),
      (''STATUS-pending'', JObj [(''data'', JObj [(''status'', JStr ''pending'')])]),
      (''STATUS-done'',
         JObj [(''data'', JObj [(''status'', JStr ''done''),
                                (''result_url'', JStr ''https://cdn/one.png'')])]),
      (''STATUS-error'', JObj [(''data'', JObj [(''status'', JStr ''error'')])])]"

text \<open>
  The authentication succeeds; the status is \<open>pending\<close> three times, then \<open>done\<close>, each
  request taking 100 ms; the result URL serves an image that opens.
\<close>

definition demo_env :: "string env" where
  "demo_env =
     \<lparr>loads = map_of demo_table,
      auth_post = (\<lambda>api_token socket_id channel. Some \<lparr>status_code = 200, body = ''AUTH-ok''\<rparr>),
      status_get = (\<lambda>i. (100, Some \<lparr>status_code = 200,
                                     body = (if i < 3 then ''STATUS-pending''
                                             else ''STATUS-done'')\<rparr>)),
      image_get = (\<lambda>u. if u = ''https://cdn/one.png''
                        then Some \<lparr>status_code = 200, body = ''PNG-bytes''\<rparr>
                        else Some \<lparr>status_code = 404, body = []\<rparr>),
      image_open = (\<lambda>b. if b = ''PNG-bytes'' then Some ''image-one'' else None)\<rparr>"

text \<open>The same, with the authentication endpoint answering 401.\<close>

definition demo_env_denied :: "string env" where
  "demo_env_denied =
     demo_env\<lparr>auth_post :=
       (\<lambda>api_token socket_id channel. Some \<lparr>status_code = 401, body = ''denied''\<rparr>)\<rparr>"

text \<open>The same as \<open>demo_env\<close>, with a status endpoint that answers as the function says.\<close>

definition demo_env_status :: "(nat \<Rightarrow> nat \<times> response option) \<Rightarrow> string env" where
  "demo_env_status f = demo_env\<lparr>status_get := f\<rparr>"

section \<open>Properties of \<open>_sanitize_filename\<close>\<close>

lemma unknown_code_points: "unknown = [117, 110, 107, 110, 111, 119, 110]"
  by (simp add: unknown_def)

lemma unknown_clean: "filter (\<lambda>c. c \<notin> set forbidden) unknown = unknown"
  by (simp add: unknown_code_points forbidden_def)

lemma strip_unknown: "strip unknown = unknown"
  by (simp add: strip_def unknown_code_points is_space_def)

text \<open>
  Claim C9. For every input, \<open>None\<close> included, \<open>_sanitize_filename\<close> returns a non-empty
  string that holds none of the nine forbidden characters; \<open>None\<close>, and every string
  that is empty once stripped and cleaned (the empty string, whitespace only, forbidden
  characters only), give \<open>unknown\<close>.
\<close>

theorem sanitize_filename_safe:
  "sanitize_filename name \<noteq> [] \<and>
   (\<forall>c \<in> set (sanitize_filename name). c \<notin> set forbidden) \<and>
   sanitize_filename None = unknown \<and>
   (\<forall>n. filter (\<lambda>c. c \<notin> set forbidden) (strip n) = [] \<longrightarrow>
        sanitize_filename (Some n) = unknown)"
proof -
  have u: "unknown \<noteq> []" "\<forall>c \<in> set unknown. c \<notin> set forbidden"
    by (simp_all add: unknown_code_points forbidden_def)
  have a: "sanitize_filename name \<noteq> []"
    using u(1) by (simp add: sanitize_filename_def Let_def)
  have b: "\<forall>c \<in> set (sanitize_filename name). c \<notin> set forbidden"
    using u(2) by (auto simp: sanitize_filename_def Let_def)
  have c: "sanitize_filename None = unknown"
    by (simp add: sanitize_filename_def strip_unknown unknown_clean)
  have d: "sanitize_filename (Some n) = unknown"
    if "filter (\<lambda>c. c \<notin> set forbidden) (strip n) = []" for n
    using that by (simp add: sanitize_filename_def strip_unknown unknown_clean Let_def)
  from a b c d show ?thesis by blast
qed

text \<open>
  The empty string, a string of whitespace, the nine forbidden characters, and
  \<open>" a/b\n"\<close>, whose result is not empty and holds no slash.
\<close>

theorem sanitize_filename_safe_witness:
  "sanitize_filename (Some []) = unknown \<and>
   sanitize_filename (Some [32, 9, 12288]) = unknown \<and>
   sanitize_filename (Some [47, 92, 58, 42, 63, 34, 60, 62, 124]) = unknown \<and>
   sanitize_filename (Some [32, 97, 47, 98, 10]) \<noteq> [] \<and>
   47 \<notin> set (sanitize_filename (Some [32, 97, 47, 98, 10]))"
proof -
  note t = sanitize_filename_safe [of "Some [32, 97, 47, 98, 10]"]
  have e: "filter (\<lambda>c. c \<notin> set forbidden) (strip []) = []"
    by (simp add: strip_def)
  have w: "filter (\<lambda>c. c \<notin> set forbidden) (strip [32, 9, 12288]) = []"
    by (simp add: strip_def is_space_def)
  have f: "filter (\<lambda>c. c \<notin> set forbidden) (strip [47, 92, 58, 42, 63, 34, 60, 62, 124]) = []"
    by (simp add: strip_def is_space_def forbidden_def)
  have "47 \<in> set forbidden" by (simp add: forbidden_def)
  with t e w f show ?thesis by blast
qed

end
